theory Spec2Isabelle
  imports Main "HOL-Library.Multiset"
begin

section \<open>Configuration (partition.py, lines 8-13)\<close>

definition TABLE_NAME :: string where
  "TABLE_NAME = ''my_catalog.my_schema.my_table''"

definition HIGH_CARDINALITY_THRESHOLD :: int where
  "HIGH_CARDINALITY_THRESHOLD = 100000"

definition LOW_CARDINALITY_THRESHOLD :: int where
  "LOW_CARDINALITY_THRESHOLD = 1000"

section \<open>The trino command line as environment\<close>

text \<open>
  Every call \<^verbatim>\<open>subprocess.run(['trino', '--execute', query], ...)\<close> is a question to
  the environment. When the call returns, the completed process is a record of what the
  code reads from it: the return code, the standard error text, and the value of
  \<^verbatim>\<open>int(result.stdout.strip().split('\n')[-1])\<close>, which is \<open>None\<close> when that
  expression raises (the bare \<^verbatim>\<open>except\<close> of \<open>get_column_cardinality\<close> catches
  every exception). What the program does to the outside (running a query, printing a
  line) is recorded as an event.
\<close>

record completed_process =
  returncode :: int
  stdout_int :: "int option"
  stderr :: string

type_synonym trino = "string \<Rightarrow> completed_process"

datatype event = Trino string | Print string

text \<open>
  The call itself has three outcomes. It returns a completed process; or it raises,
  when the \<^verbatim>\<open>trino\<close> executable cannot be started (the call stands outside every
  \<^verbatim>\<open>try\<close>); or it never returns, when the process hangs (no \<^verbatim>\<open>timeout=\<close> is
  passed). An environment of type \<open>subprocess\<close> gives the outcome for each query text; an
  environment of type \<open>trino\<close> gives the completed process for each query text, for the
  runs in which every call returns, and \<open>completes\<close> reads it as such a \<open>subprocess\<close>.
\<close>

datatype exception = FileNotFoundError | PermissionError

datatype 'a outcome = Returned 'a | Raised exception | Never_Returns

type_synonym subprocess = "string \<Rightarrow> completed_process outcome"

definition completes :: "trino \<Rightarrow> subprocess" where
  "completes run = (\<lambda>query. Returned (run query))"

definition quote :: string where
  "quote = [CHR 0x27]"

section \<open>get_column_cardinality (lines 42-53)\<close>

text \<open>
  First the function in an environment where the call of line 44 returns: lines 45-53
  on the completed process.
\<close>

definition cardinality_query :: "string \<Rightarrow> string \<Rightarrow> string" where
  "cardinality_query table column =
     ''SELECT COUNT(DISTINCT '' @ column @ '') FROM '' @ table @ '';''"

definition get_column_cardinality :: "trino \<Rightarrow> string \<Rightarrow> string \<Rightarrow> event list \<times> int option" where
  "get_column_cardinality run table column =
     (let query = cardinality_query table column;
          result = run query
      in if returncode result = 0
         then (case stdout_int result of
                 Some cnt \<Rightarrow> ([Trino query], Some cnt)
               | None \<Rightarrow> ([Trino query], None))
         else ([Trino query,
                Print (''Error fetching cardinality for '' @ column @ '': '' @ stderr result)],
               None))"

text \<open>
  The whole function, line 44 included: an exception of \<^verbatim>\<open>subprocess.run\<close> is not
  caught and leaves the function, and a call that never returns keeps the function
  from returning.
\<close>

definition get_column_cardinality_run ::
  "subprocess \<Rightarrow> string \<Rightarrow> string \<Rightarrow> (event list \<times> int option) outcome" where
  "get_column_cardinality_run subprocess_run table column =
     (let query = cardinality_query table column
      in case subprocess_run query of
           Raised e \<Rightarrow> Raised e
         | Never_Returns \<Rightarrow> Never_Returns
         | Returned result \<Rightarrow>
             if returncode result = 0
             then (case stdout_int result of
                     Some cnt \<Rightarrow> Returned ([Trino query], Some cnt)
                   | None \<Rightarrow> Returned ([Trino query], None))
             else Returned
                    ([Trino query,
                      Print (''Error fetching cardinality for '' @ column @ '': '' @
                             stderr result)],
                     None))"

section \<open>generate_partition_spec (lines 55-62)\<close>

text \<open>
  A partition column is the dictionary \<^verbatim>\<open>{'column': ..., 'strategy': ...}\<close>; the
  strategy is a string, and a strategy that is neither \<^verbatim>\<open>'hash'\<close> nor
  \<^verbatim>\<open>'range'\<close> appends nothing.
\<close>

record partition_column =
  column :: string
  strategy :: string

fun spec_loop :: "string list \<Rightarrow> partition_column list \<Rightarrow> string list" where
  "spec_loop spec [] = spec"
| "spec_loop spec (pc # pcs) =
     (if strategy pc = ''hash''
      then spec_loop (spec @ [''HASH('' @ column pc @ '', 16)'']) pcs
      else if strategy pc = ''range''
      then spec_loop (spec @ [column pc]) pcs
      else spec_loop spec pcs)"

text \<open>Python's \<^verbatim>\<open>sep.join(parts)\<close>.\<close>

fun str_join :: "string \<Rightarrow> string list \<Rightarrow> string" where
  "str_join sep [] = []"
| "str_join sep [x] = x"
| "str_join sep (x # y # ys) = x @ sep @ str_join sep (y # ys)"

definition generate_partition_spec :: "partition_column list \<Rightarrow> string" where
  "generate_partition_spec partition_columns = str_join '','' (spec_loop [] partition_columns)"

section \<open>alter_table_partitioning and optimize_table (lines 64-78)\<close>

definition alter_table_partitioning :: "trino \<Rightarrow> string \<Rightarrow> string \<Rightarrow> event list" where
  "alter_table_partitioning run table partition_spec =
     (let query = ''ALTER TABLE '' @ table @ '' SET PROPERTIES ('' @ quote @ ''partitioning''
                    @ quote @ '' = '' @ quote @ partition_spec @ quote @ '');'';
          result = run query
      in if returncode result = 0
         then [Trino query, Print (''Successfully altered partitioning for '' @ table)]
         else [Trino query, Print (''Error altering table: '' @ stderr result)])"

definition optimize_table :: "trino \<Rightarrow> string \<Rightarrow> event list" where
  "optimize_table run table =
     (let query = ''CALL system.optimize('' @ quote @ table @ quote @ '');'';
          result = run query
      in if returncode result = 0
         then [Trino query, Print (''Optimization initiated for '' @ table)]
         else [Trino query, Print (''Error optimizing table: '' @ stderr result)])"

text \<open>The same two functions with the outcomes of \<^verbatim>\<open>subprocess.run\<close> (lines 66, 74).\<close>

definition alter_table_partitioning_run ::
  "subprocess \<Rightarrow> string \<Rightarrow> string \<Rightarrow> event list outcome" where
  "alter_table_partitioning_run subprocess_run table partition_spec =
     (let query = ''ALTER TABLE '' @ table @ '' SET PROPERTIES ('' @ quote @ ''partitioning''
                    @ quote @ '' = '' @ quote @ partition_spec @ quote @ '');''
      in case subprocess_run query of
           Raised e \<Rightarrow> Raised e
         | Never_Returns \<Rightarrow> Never_Returns
         | Returned result \<Rightarrow>
             if returncode result = 0
             then Returned [Trino query,
                            Print (''Successfully altered partitioning for '' @ table)]
             else Returned [Trino query, Print (''Error altering table: '' @ stderr result)])"

definition optimize_table_run :: "subprocess \<Rightarrow> string \<Rightarrow> event list outcome" where
  "optimize_table_run subprocess_run table =
     (let query = ''CALL system.optimize('' @ quote @ table @ quote @ '');''
      in case subprocess_run query of
           Raised e \<Rightarrow> Raised e
         | Never_Returns \<Rightarrow> Never_Returns
         | Returned result \<Rightarrow>
             if returncode result = 0
             then Returned [Trino query, Print (''Optimization initiated for '' @ table)]
             else Returned [Trino query, Print (''Error optimizing table: '' @ stderr result)])"

section \<open>main, step 3: usage aggregation (lines 89-109)\<close>

text \<open>
  A \<^verbatim>\<open>Counter\<close> is a dictionary from column name to count that keeps its keys in
  insertion order: an association list with distinct keys.
  \<^verbatim>\<open>Counter.update(iterable)\<close> adds one to the count of each element in turn.
\<close>

type_synonym counter = "(string \<times> int) list"

fun counter_incr :: "counter \<Rightarrow> string \<Rightarrow> counter" where
  "counter_incr [] k = [(k, 1)]"
| "counter_incr ((k', v) # c) k =
     (if k' = k then (k', v + 1) # c else (k', v) # counter_incr c k)"

definition counter_update :: "counter \<Rightarrow> string list \<Rightarrow> counter" where
  "counter_update c xs = foldl counter_incr c xs"

definition counter_keys :: "counter \<Rightarrow> string list" where
  "counter_keys c = map fst c"

text \<open>
  The cell of the data frame for a column and a counter: the count when the counter
  has the key, and otherwise the missing value that \<^verbatim>\<open>fillna(0).astype(int)\<close> turns
  into 0.
\<close>

definition counter_cell :: "counter \<Rightarrow> string \<Rightarrow> int" where
  "counter_cell c k = (case map_of c k of Some v \<Rightarrow> v | None \<Rightarrow> 0)"

text \<open>
  The value of \<^verbatim>\<open>row['parsed_columns']\<close>, as \<open>extract_columns_metadata\<close> builds it:
  one list of column names for each clause role.
\<close>

record parsed_columns =
  cols_select :: "string list"
  cols_where :: "string list"
  cols_join :: "string list"
  cols_group_by :: "string list"
  cols_order_by :: "string list"

record counters =
  select_counter :: counter
  where_counter :: counter
  join_counter :: counter
  group_by_counter :: counter
  order_by_counter :: counter

definition empty_counters :: counters where
  "empty_counters = \<lparr>select_counter = [], where_counter = [], join_counter = [],
                      group_by_counter = [], order_by_counter = []\<rparr>"

text \<open>The loop of lines 95-101 over the rows of the log frame.\<close>

fun aggregate_usage :: "counters \<Rightarrow> parsed_columns list \<Rightarrow> counters" where
  "aggregate_usage cs [] = cs"
| "aggregate_usage cs (cols # rows) =
     aggregate_usage
       \<lparr>select_counter = counter_update (select_counter cs) (cols_select cols),
        where_counter = counter_update (where_counter cs) (cols_where cols),
        join_counter = counter_update (join_counter cs) (cols_join cols),
        group_by_counter = counter_update (group_by_counter cs) (cols_group_by cols),
        order_by_counter = counter_update (order_by_counter cs) (cols_order_by cols)\<rparr>
       rows"

text \<open>
  \<^verbatim>\<open>pd.DataFrame\<close> of a dictionary of dictionaries takes as index the union of the
  dictionaries' keys, each key at its first occurrence, reading the dictionaries in
  the order select, where, join, group_by, order_by.
\<close>

definition index_add :: "string list \<Rightarrow> string \<Rightarrow> string list" where
  "index_add idx k = (if k \<in> set idx then idx else idx @ [k])"

definition union_indexes :: "string list list \<Rightarrow> string list" where
  "union_indexes indexes = foldl index_add [] (concat indexes)"

record usage_row =
  row_column :: string
  row_select :: int
  row_where :: int
  row_join :: int
  row_group_by :: int
  row_order_by :: int

definition usage_stats :: "counters \<Rightarrow> usage_row list" where
  "usage_stats cs =
     map (\<lambda>k. \<lparr>row_column = k,
                row_select = counter_cell (select_counter cs) k,
                row_where = counter_cell (where_counter cs) k,
                row_join = counter_cell (join_counter cs) k,
                row_group_by = counter_cell (group_by_counter cs) k,
                row_order_by = counter_cell (order_by_counter cs) k\<rparr>)
         (union_indexes [counter_keys (select_counter cs), counter_keys (where_counter cs),
                         counter_keys (join_counter cs), counter_keys (group_by_counter cs),
                         counter_keys (order_by_counter cs)])"

section \<open>main, steps 4 and 5: cardinality and merge (lines 112-121)\<close>

text \<open>
  The loop of lines 114-117. \<^verbatim>\<open>if count:\<close> is Python truthiness: \<open>None\<close> and the
  integer 0 are both false, so neither is stored in the dictionary.
\<close>

fun fetch_cardinality ::
  "trino \<Rightarrow> (string \<rightharpoonup> int) \<Rightarrow> event list \<Rightarrow> string list \<Rightarrow> (string \<rightharpoonup> int) \<times> event list" where
  "fetch_cardinality run cardinality out [] = (cardinality, out)"
| "fetch_cardinality run cardinality out (col # columns_to_check) =
     (case get_column_cardinality run TABLE_NAME col of
        (evs, cnt) \<Rightarrow>
          fetch_cardinality run
            (case cnt of
               Some n \<Rightarrow> if n \<noteq> 0 then cardinality(col \<mapsto> n) else cardinality
             | None \<Rightarrow> cardinality)
            (out @ evs) columns_to_check)"

text \<open>
  The same loop with the outcomes of \<^verbatim>\<open>subprocess.run\<close>: the first call that raises
  or never returns ends the loop, and the run.
\<close>

fun fetch_cardinality_run ::
  "subprocess \<Rightarrow> (string \<rightharpoonup> int) \<Rightarrow> event list \<Rightarrow> string list \<Rightarrow>
     ((string \<rightharpoonup> int) \<times> event list) outcome" where
  "fetch_cardinality_run subprocess_run cardinality out [] = Returned (cardinality, out)"
| "fetch_cardinality_run subprocess_run cardinality out (col # columns_to_check) =
     (case get_column_cardinality_run subprocess_run TABLE_NAME col of
        Raised e \<Rightarrow> Raised e
      | Never_Returns \<Rightarrow> Never_Returns
      | Returned (evs, cnt) \<Rightarrow>
          fetch_cardinality_run subprocess_run
            (case cnt of
               Some n \<Rightarrow> if n \<noteq> 0 then cardinality(col \<mapsto> n) else cardinality
             | None \<Rightarrow> cardinality)
            (out @ evs) columns_to_check)"

text \<open>
  The left merge on \<^verbatim>\<open>'column'\<close>: every usage row once, in order, with the
  cardinality of its column when the dictionary has one and the missing value (NaN)
  otherwise.
\<close>

record merged_row = usage_row +
  row_cardinality :: "int option"

definition merge_left :: "usage_row list \<Rightarrow> (string \<rightharpoonup> int) \<Rightarrow> merged_row list" where
  "merge_left stats cardinality =
     map (\<lambda>r. \<lparr>row_column = row_column r, row_select = row_select r, row_where = row_where r,
                row_join = row_join r, row_group_by = row_group_by r,
                row_order_by = row_order_by r,
                row_cardinality = cardinality (row_column r)\<rparr>) stats"

section \<open>main, step 6: partition columns (lines 124-133)\<close>

text \<open>A comparison with the missing value NaN is false, whichever way it points.\<close>

fun nan_gt :: "int option \<Rightarrow> int \<Rightarrow> bool" where
  "nan_gt None t = False"
| "nan_gt (Some n) t = (n > t)"

fun nan_lt :: "int option \<Rightarrow> int \<Rightarrow> bool" where
  "nan_lt None t = False"
| "nan_lt (Some n) t = (n < t)"

text \<open>The three branches of lines 128-133, named by the line that appends.\<close>

datatype branch = Hash_Branch | Low_Range_Branch | Default_Range_Branch

definition cardinality_branch :: "int option \<Rightarrow> branch" where
  "cardinality_branch cardinality =
     (if nan_gt cardinality HIGH_CARDINALITY_THRESHOLD then Hash_Branch
      else if nan_lt cardinality LOW_CARDINALITY_THRESHOLD then Low_Range_Branch
      else Default_Range_Branch)"

fun branch_strategy :: "branch \<Rightarrow> string" where
  "branch_strategy Hash_Branch = ''hash''"
| "branch_strategy Low_Range_Branch = ''range''"
| "branch_strategy Default_Range_Branch = ''range''"

definition usage_count :: "'a usage_row_scheme \<Rightarrow> int" where
  "usage_count row = row_where row + row_join row + row_group_by row + row_order_by row"

fun partition_loop :: "partition_column list \<Rightarrow> merged_row list \<Rightarrow> partition_column list" where
  "partition_loop partition_columns [] = partition_columns"
| "partition_loop partition_columns (row # rows) =
     (if usage_count row > 50
      then partition_loop
             (partition_columns @
                [\<lparr>column = row_column row,
                  strategy = branch_strategy (cardinality_branch (row_cardinality row))\<rparr>])
             rows
      else partition_loop partition_columns rows)"

section \<open>main, from step 3 on (lines 88-144)\<close>

text \<open>
  Steps 1 and 2 (download, JSON lines, SQL parsing) deliver the column
  \<^verbatim>\<open>df_logs['parsed_columns']\<close>; \<open>main\<close> is modelled from there, with that column as
  its input. The result keeps the decision list, the specification string and the
  events in the order they happen.
\<close>

record main_result =
  partition_columns :: "partition_column list"
  partition_spec :: string
  events :: "event list"

definition usage_totals :: "parsed_columns list \<Rightarrow> usage_row list" where
  "usage_totals rows = usage_stats (aggregate_usage empty_counters rows)"

definition merged_stats :: "trino \<Rightarrow> parsed_columns list \<Rightarrow> merged_row list" where
  "merged_stats run rows =
     (let stats = usage_totals rows;
          columns_to_check = map row_column stats
      in merge_left stats (fst (fetch_cardinality run Map.empty [] columns_to_check)))"

definition main :: "trino \<Rightarrow> parsed_columns list \<Rightarrow> main_result" where
  "main run rows =
     (let stats = usage_totals rows;
          columns_to_check = map row_column stats;
          (cardinality, out) = fetch_cardinality run Map.empty [] columns_to_check;
          merged = merge_left stats cardinality;
          pcs = partition_loop [] merged;
          spec = generate_partition_spec pcs;
          out = out @ [Print (''Recommended Partition Spec: '' @ spec)]
      in \<lparr>partition_columns = pcs, partition_spec = spec,
          events = (if spec \<noteq> []
                    then out @ alter_table_partitioning run TABLE_NAME spec
                             @ optimize_table run TABLE_NAME
                    else out @ [Print ''No suitable partition columns identified.''])\<rparr>)"

text \<open>
  \<open>main\<close> with the outcomes of \<^verbatim>\<open>subprocess.run\<close>: the run returns its result,
  or is aborted by an exception that nothing catches, or never returns.
\<close>

definition main_run :: "subprocess \<Rightarrow> parsed_columns list \<Rightarrow> main_result outcome" where
  "main_run subprocess_run rows =
     (let stats = usage_totals rows;
          columns_to_check = map row_column stats
      in case fetch_cardinality_run subprocess_run Map.empty [] columns_to_check of
           Raised e \<Rightarrow> Raised e
         | Never_Returns \<Rightarrow> Never_Returns
         | Returned (cardinality, out) \<Rightarrow>
             (let merged = merge_left stats cardinality;
                  pcs = partition_loop [] merged;
                  spec = generate_partition_spec pcs;
                  out = out @ [Print (''Recommended Partition Spec: '' @ spec)]
              in if spec \<noteq> []
                 then (case alter_table_partitioning_run subprocess_run TABLE_NAME spec of
                         Raised e \<Rightarrow> Raised e
                       | Never_Returns \<Rightarrow> Never_Returns
                       | Returned altered \<Rightarrow>
                           (case optimize_table_run subprocess_run TABLE_NAME of
                              Raised e \<Rightarrow> Raised e
                            | Never_Returns \<Rightarrow> Never_Returns
                            | Returned optimized \<Rightarrow>
                                Returned \<lparr>partition_columns = pcs, partition_spec = spec,
                                          events = out @ altered @ optimized\<rparr>))
                 else Returned
                        \<lparr>partition_columns = pcs, partition_spec = spec,
                         events = out @ [Print ''No suitable partition columns identified.'']\<rparr>))"

section \<open>Specification-side notions\<close>

text \<open>
  The total number of occurrences of a column in a clause role across all records,
  every occurrence counted, and the set of columns that occur in a role at all.
\<close>

definition occurrences :: "(parsed_columns \<Rightarrow> string list) \<Rightarrow> parsed_columns list \<Rightarrow> string \<Rightarrow> int" where
  "occurrences role rows c = (\<Sum>cols\<leftarrow>rows. int (count_list (role cols) c))"

definition mentioned :: "(parsed_columns \<Rightarrow> string list) \<Rightarrow> parsed_columns list \<Rightarrow> string set" where
  "mentioned role rows = (\<Union>cols\<in>set rows. set (role cols))"

text \<open>
  The specification's rendering rule (section 4.4): a decision is a column with
  strategy hash or range; a hash decision renders as \<open>HASH(<column>, 16)\<close> and a range
  decision as the bare column name.
\<close>

definition is_decision :: "partition_column \<Rightarrow> bool" where
  "is_decision pc = (strategy pc = ''hash'' \<or> strategy pc = ''range'')"

definition decision_token :: "partition_column \<Rightarrow> string" where
  "decision_token pc =
     (if strategy pc = ''hash'' then ''HASH('' @ column pc @ '', 16)'' else column pc)"

text \<open>
  A plain column name is non-empty and has no comma and no parenthesis: the names for
  which the round trip through the specification string is stated.
\<close>

definition plain_char :: "char \<Rightarrow> bool" where
  "plain_char ch = (ch \<noteq> CHR '','' \<and> ch \<noteq> CHR ''('' \<and> ch \<noteq> CHR '')'')"

definition plain_column :: "string \<Rightarrow> bool" where
  "plain_column c = (c \<noteq> [] \<and> list_all plain_char c)"

text \<open>
  Modelled from the spec: the parser of the round-trip property of section 8, which
  the repository does not contain. \<open>split_top_level\<close> splits a specification string
  on the commas that are outside every pair of parentheses; \<open>depth\<close> counts the open
  parentheses and \<open>tok\<close> collects the current token.
\<close>

fun split_top_level :: "nat \<Rightarrow> string \<Rightarrow> string \<Rightarrow> string list" where
  "split_top_level depth tok [] = [tok]"
| "split_top_level depth tok (ch # rest) =
     (if ch = CHR '','' \<and> depth = 0 then tok # split_top_level 0 [] rest
      else if ch = CHR ''('' then split_top_level (Suc depth) (tok @ [ch]) rest
      else if ch = CHR '')'' then split_top_level (depth - 1) (tok @ [ch]) rest
      else split_top_level depth (tok @ [ch]) rest)"

text \<open>
  Modelled from the spec: the parser's reading of one token, which the repository does
  not contain. A token \<open>HASH(<column>, 16)\<close> is a hash decision, any other token a range
  decision on the column of that name.
\<close>

definition parse_token :: "string \<Rightarrow> partition_column" where
  "parse_token tok =
     (if 10 \<le> length tok \<and> take 5 tok = ''HASH('' \<and> drop (length tok - 5) tok = '', 16)''
      then \<lparr>column = take (length tok - 10) (drop 5 tok), strategy = ''hash''\<rparr>
      else \<lparr>column = tok, strategy = ''range''\<rparr>)"

text \<open>
  Modelled from the spec: the parser of a whole specification string, which the
  repository does not contain. The empty string is the empty decision list.
\<close>

definition parse_partition_spec :: "string \<Rightarrow> partition_column list" where
  "parse_partition_spec s = (if s = [] then [] else map parse_token (split_top_level 0 [] s))"

section \<open>Example inputs\<close>

text \<open>An environment in which every query succeeds and prints the number \<open>n\<close>.\<close>

definition trino_ok :: "int \<Rightarrow> trino" where
  "trino_ok n = (\<lambda>query. \<lparr>returncode = 0, stdout_int = Some n, stderr = []\<rparr>)"

definition only_where :: "string list \<Rightarrow> parsed_columns" where
  "only_where cs = \<lparr>cols_select = [], cols_where = cs, cols_join = [],
                     cols_group_by = [], cols_order_by = []\<rparr>"

text \<open>Column \<open>a\<close> is filtered on 50 times, column \<open>b\<close> 51 times.\<close>

definition boundary_rows :: "parsed_columns list" where
  "boundary_rows = replicate 50 (only_where [''a'', ''b'']) @ [only_where [''b'']]"

text \<open>An environment in which every query exits with a non-zero return code.\<close>

definition trino_failed :: trino where
  "trino_failed = (\<lambda>query. \<lparr>returncode = 1, stdout_int = None, stderr = ''Query failed''\<rparr>)"

text \<open>An environment in which every query succeeds and prints no number.\<close>

definition trino_not_numeric :: trino where
  "trino_not_numeric = (\<lambda>query. \<lparr>returncode = 0, stdout_int = None, stderr = []\<rparr>)"

text \<open>
  Environments in which the cardinality query of one column cannot be started, or
  hangs, and every other call succeeds and prints the number 5.
\<close>

definition trino_not_found_for :: "string \<Rightarrow> subprocess" where
  "trino_not_found_for c =
     (\<lambda>query. if query = cardinality_query TABLE_NAME c then Raised FileNotFoundError
              else Returned \<lparr>returncode = 0, stdout_int = Some 5, stderr = []\<rparr>)"

definition trino_hangs_for :: "string \<Rightarrow> subprocess" where
  "trino_hangs_for c =
     (\<lambda>query. if query = cardinality_query TABLE_NAME c then Never_Returns
              else Returned \<lparr>returncode = 0, stdout_int = Some 5, stderr = []\<rparr>)"

text \<open>
  Column \<open>s\<close> is selected 60 times and used in no other role; two records in which
  columns occur several times and in several roles.
\<close>

definition only_select :: "string list \<Rightarrow> parsed_columns" where
  "only_select cs = \<lparr>cols_select = cs, cols_where = [], cols_join = [],
                      cols_group_by = [], cols_order_by = []\<rparr>"

definition select_rows :: "parsed_columns list" where
  "select_rows = replicate 60 (only_select [''s'']) @ [only_where [''w'']]"

definition agg_rows :: "parsed_columns list" where
  "agg_rows =
     [\<lparr>cols_select = [''x''], cols_where = [''x'', ''x'', ''y''], cols_join = [],
       cols_group_by = [], cols_order_by = []\<rparr>,
      \<lparr>cols_select = [], cols_where = [''x''], cols_join = [''y''],
       cols_group_by = [], cols_order_by = [''x'']\<rparr>]"

text \<open>Column \<open>a\<close> is filtered on exactly 50 times, and there is no other column.\<close>

definition quiet_rows :: "parsed_columns list" where
  "quiet_rows = replicate 50 (only_where [''a''])"

text \<open>
  The scenario of the specification's section 8: \<open>status\<close> occurs 30 times in where
  lists and 25 times in join lists and has 500000 distinct values; \<open>region\<close> occurs 60
  times in where lists and has 50 distinct values.
\<close>

definition scenario_rows :: "parsed_columns list" where
  "scenario_rows =
     replicate 30 \<lparr>cols_select = [], cols_where = [''status''], cols_join = [],
                   cols_group_by = [], cols_order_by = []\<rparr> @
     replicate 25 \<lparr>cols_select = [], cols_where = [], cols_join = [''status''],
                   cols_group_by = [], cols_order_by = []\<rparr> @
     replicate 60 \<lparr>cols_select = [], cols_where = [''region''], cols_join = [],
                   cols_group_by = [], cols_order_by = []\<rparr>"

definition scenario_trino :: trino where
  "scenario_trino query =
     (if query = cardinality_query TABLE_NAME ''status''
      then \<lparr>returncode = 0, stdout_int = Some 500000, stderr = []\<rparr>
      else if query = cardinality_query TABLE_NAME ''region''
      then \<lparr>returncode = 0, stdout_int = Some 50, stderr = []\<rparr>
      else \<lparr>returncode = 0, stdout_int = None, stderr = []\<rparr>)"

section \<open>Facts about counters and aggregation\<close>

lemma counter_cell_incr:
  "counter_cell (counter_incr c k) k' = counter_cell c k' + (if k' = k then 1 else 0)"
  by (induction c k rule: counter_incr.induct) (auto simp: counter_cell_def)

lemma counter_cell_update:
  "counter_cell (counter_update c xs) k = counter_cell c k + int (count_list xs k)"
  unfolding counter_update_def
  by (induction xs arbitrary: c) (auto simp: counter_cell_incr)

lemma counter_keys_incr:
  "set (counter_keys (counter_incr c k)) = insert k (set (counter_keys c))"
  by (induction c k rule: counter_incr.induct) (auto simp: counter_keys_def)

lemma counter_keys_update:
  "set (counter_keys (counter_update c xs)) = set (counter_keys c) \<union> set xs"
  unfolding counter_update_def
  by (induction xs arbitrary: c) (auto simp: counter_keys_incr)

lemma occurrences_Nil: "occurrences role [] c = 0"
  by (simp add: occurrences_def)

lemma occurrences_Cons:
  "occurrences role (cols # rows) c = int (count_list (role cols) c) + occurrences role rows c"
  by (simp add: occurrences_def)

lemma mentioned_Nil: "mentioned role [] = {}"
  by (simp add: mentioned_def)

lemma mentioned_Cons: "mentioned role (cols # rows) = set (role cols) \<union> mentioned role rows"
  by (simp add: mentioned_def)

lemma aggregate_cells:
  "counter_cell (select_counter (aggregate_usage cs rows)) k =
     counter_cell (select_counter cs) k + occurrences cols_select rows k"
  "counter_cell (where_counter (aggregate_usage cs rows)) k =
     counter_cell (where_counter cs) k + occurrences cols_where rows k"
  "counter_cell (join_counter (aggregate_usage cs rows)) k =
     counter_cell (join_counter cs) k + occurrences cols_join rows k"
  "counter_cell (group_by_counter (aggregate_usage cs rows)) k =
     counter_cell (group_by_counter cs) k + occurrences cols_group_by rows k"
  "counter_cell (order_by_counter (aggregate_usage cs rows)) k =
     counter_cell (order_by_counter cs) k + occurrences cols_order_by rows k"
  by (induction rows arbitrary: cs; simp add: occurrences_Nil occurrences_Cons counter_cell_update)+

lemma aggregate_keys:
  "set (counter_keys (select_counter (aggregate_usage cs rows))) =
     set (counter_keys (select_counter cs)) \<union> mentioned cols_select rows"
  "set (counter_keys (where_counter (aggregate_usage cs rows))) =
     set (counter_keys (where_counter cs)) \<union> mentioned cols_where rows"
  "set (counter_keys (join_counter (aggregate_usage cs rows))) =
     set (counter_keys (join_counter cs)) \<union> mentioned cols_join rows"
  "set (counter_keys (group_by_counter (aggregate_usage cs rows))) =
     set (counter_keys (group_by_counter cs)) \<union> mentioned cols_group_by rows"
  "set (counter_keys (order_by_counter (aggregate_usage cs rows))) =
     set (counter_keys (order_by_counter cs)) \<union> mentioned cols_order_by rows"
  by (induction rows arbitrary: cs; simp add: mentioned_Nil mentioned_Cons counter_keys_update Un_assoc)+

lemma set_foldl_index_add: "set (foldl index_add idx ks) = set idx \<union> set ks"
  by (induction ks arbitrary: idx) (auto simp: index_add_def)

lemma distinct_foldl_index_add: "distinct idx \<Longrightarrow> distinct (foldl index_add idx ks)"
  by (induction ks arbitrary: idx) (auto simp: index_add_def)

lemma set_union_indexes: "set (union_indexes indexes) = (\<Union>ks\<in>set indexes. set ks)"
  by (simp add: union_indexes_def set_foldl_index_add)

lemma distinct_union_indexes: "distinct (union_indexes indexes)"
  by (simp add: union_indexes_def distinct_foldl_index_add)

lemma occurrences_nonneg: "0 \<le> occurrences role rows c"
  by (induction rows) (simp_all add: occurrences_Nil occurrences_Cons)

lemma occurrences_pos_iff: "0 < occurrences role rows c \<longleftrightarrow> c \<in> mentioned role rows"
proof (induction rows)
  case Nil
  show ?case by (simp add: occurrences_Nil mentioned_Nil)
next
  case (Cons cols rows)
  have "0 < int (count_list (role cols) c) \<longleftrightarrow> c \<in> set (role cols)"
    using count_list_0_iff [of "role cols" c] by auto
  with Cons occurrences_nonneg [of role rows c] show ?case
    by (auto simp: occurrences_Cons mentioned_Cons)
qed

lemma occurrences_zero_iff: "occurrences role rows c = 0 \<longleftrightarrow> c \<notin> mentioned role rows"
  using occurrences_pos_iff [of role rows c] occurrences_nonneg [of role rows c] by linarith


subsection \<open>The usage frame\<close>

lemma distinct_usage_stats: "distinct (map row_column (usage_stats cs))"
  by (simp add: usage_stats_def comp_def distinct_union_indexes)

lemma set_usage_stats_columns:
  "row_column ` set (usage_stats cs) =
     set (counter_keys (select_counter cs)) \<union> set (counter_keys (where_counter cs)) \<union>
     set (counter_keys (join_counter cs)) \<union> set (counter_keys (group_by_counter cs)) \<union>
     set (counter_keys (order_by_counter cs))"
proof -
  have "row_column ` set (usage_stats cs) = set (map row_column (usage_stats cs))"
    by simp
  also have "map row_column (usage_stats cs) =
      union_indexes [counter_keys (select_counter cs), counter_keys (where_counter cs),
                     counter_keys (join_counter cs), counter_keys (group_by_counter cs),
                     counter_keys (order_by_counter cs)]"
    by (simp add: usage_stats_def comp_def)
  finally show ?thesis
    by (simp add: set_union_indexes Un_assoc)
qed

lemma usage_stats_cells:
  assumes "r \<in> set (usage_stats cs)"
  shows "row_select r = counter_cell (select_counter cs) (row_column r)"
    and "row_where r = counter_cell (where_counter cs) (row_column r)"
    and "row_join r = counter_cell (join_counter cs) (row_column r)"
    and "row_group_by r = counter_cell (group_by_counter cs) (row_column r)"
    and "row_order_by r = counter_cell (order_by_counter cs) (row_column r)"
  using assms by (auto simp: usage_stats_def)

lemma counter_cell_empty: "counter_cell [] k = 0"
  by (simp add: counter_cell_def)

lemma counter_keys_empty: "counter_keys [] = []"
  by (simp add: counter_keys_def)

lemma distinct_usage_totals: "distinct (map row_column (usage_totals rows))"
  by (simp add: usage_totals_def distinct_usage_stats)

lemma set_usage_totals_columns:
  "row_column ` set (usage_totals rows) =
     mentioned cols_select rows \<union> mentioned cols_where rows \<union> mentioned cols_join rows \<union>
     mentioned cols_group_by rows \<union> mentioned cols_order_by rows"
  by (simp add: usage_totals_def set_usage_stats_columns aggregate_keys empty_counters_def
        counter_keys_empty)

lemma usage_totals_cells:
  assumes "r \<in> set (usage_totals rows)"
  shows "row_select r = occurrences cols_select rows (row_column r)"
    and "row_where r = occurrences cols_where rows (row_column r)"
    and "row_join r = occurrences cols_join rows (row_column r)"
    and "row_group_by r = occurrences cols_group_by rows (row_column r)"
    and "row_order_by r = occurrences cols_order_by rows (row_column r)"
  using assms
  by (simp_all add: usage_totals_def usage_stats_cells aggregate_cells empty_counters_def
        counter_cell_empty)

subsection \<open>Cardinality and merge\<close>

lemma get_column_cardinality_cases:
  "snd (get_column_cardinality run table c) =
     (if returncode (run (cardinality_query table c)) = 0
      then stdout_int (run (cardinality_query table c)) else None)"
  by (simp add: get_column_cardinality_def Let_def split: option.splits)

lemma fst_fetch_cardinality:
  "fst (fetch_cardinality run cardinality out cs) c =
     (if c \<in> set cs
      then (case snd (get_column_cardinality run TABLE_NAME c) of
              Some n \<Rightarrow> if n \<noteq> 0 then Some n else cardinality c
            | None \<Rightarrow> cardinality c)
      else cardinality c)"
  by (induction cs arbitrary: cardinality out)
     (auto split: prod.splits option.splits)

lemma merged_stats_cardinality:
  assumes "m \<in> set (merged_stats run rows)"
  shows "row_cardinality m =
     (case snd (get_column_cardinality run TABLE_NAME (row_column m)) of
        Some n \<Rightarrow> if n \<noteq> 0 then Some n else None
      | None \<Rightarrow> None)"
  using assms
  by (auto simp: merged_stats_def merge_left_def fst_fetch_cardinality Let_def split: option.splits)

lemma distinct_merged_stats: "distinct (map row_column (merged_stats run rows))"
  using distinct_usage_totals [of rows]
  by (simp add: merged_stats_def merge_left_def Let_def comp_def)

subsection \<open>The partition loop\<close>

lemma partition_loop_eq:
  "partition_loop pcs rows =
     pcs @ map (\<lambda>row. \<lparr>column = row_column row,
                       strategy = branch_strategy (cardinality_branch (row_cardinality row))\<rparr>)
              (filter (\<lambda>row. usage_count row > 50) rows)"
  by (induction rows arbitrary: pcs) simp_all

lemma main_partition_columns:
  "partition_columns (main run rows) = partition_loop [] (merged_stats run rows)"
  by (simp add: main_def merged_stats_def Let_def split: prod.splits)

lemma main_partition_spec:
  "partition_spec (main run rows) = generate_partition_spec (partition_columns (main run rows))"
  by (simp add: main_def Let_def split: prod.splits)

lemma filter_key_unique:
  "distinct (map f xs) \<Longrightarrow> m \<in> set xs \<Longrightarrow> filter (\<lambda>r. f r = f m) xs = [m]"
proof (induction xs)
  case Nil
  then show ?case by simp
next
  case (Cons x xs)
  show ?case
  proof (cases "x = m")
    case True
    with Cons.prems(1) have "filter (\<lambda>r. f r = f m) xs = []"
      by (auto simp: filter_empty_conv image_iff)
    with True show ?thesis by simp
  next
    case False
    with Cons.prems have "m \<in> set xs" "f x \<noteq> f m" by auto
    with Cons show ?thesis by simp
  qed
qed

lemma decisions_of_column:
  assumes "distinct (map row_column rows)" and "m \<in> set rows"
  shows "filter (\<lambda>pc. column pc = row_column m) (partition_loop [] rows) =
     (if usage_count m > 50
      then [\<lparr>column = row_column m,
             strategy = branch_strategy (cardinality_branch (row_cardinality m))\<rparr>]
      else [])"
proof -
  let ?dec = "\<lambda>row :: merged_row. \<lparr>column = row_column row,
                 strategy = branch_strategy (cardinality_branch (row_cardinality row))\<rparr>"
  have "filter (\<lambda>pc. column pc = row_column m) (partition_loop [] rows) =
        map ?dec (filter (\<lambda>row. usage_count row > 50)
                    (filter (\<lambda>r. row_column r = row_column m) rows))"
    by (simp add: partition_loop_eq filter_map comp_def conj_commute)
  also have "filter (\<lambda>r. row_column r = row_column m) rows = [m]"
    using assms by (rule filter_key_unique)
  finally show ?thesis by simp
qed

lemma main_decisions_of_column:
  assumes "m \<in> set (merged_stats run rows)"
  shows "filter (\<lambda>pc. column pc = row_column m) (partition_columns (main run rows)) =
     (if usage_count m > 50
      then [\<lparr>column = row_column m,
             strategy = branch_strategy (cardinality_branch (row_cardinality m))\<rparr>]
      else [])"
  unfolding main_partition_columns
  using distinct_merged_stats assms by (rule decisions_of_column)

lemma merged_stats_cells:
  assumes "m \<in> set (merged_stats run rows)"
  shows "row_select m = occurrences cols_select rows (row_column m)"
    and "row_where m = occurrences cols_where rows (row_column m)"
    and "row_join m = occurrences cols_join rows (row_column m)"
    and "row_group_by m = occurrences cols_group_by rows (row_column m)"
    and "row_order_by m = occurrences cols_order_by rows (row_column m)"
  using assms
  by (auto simp: merged_stats_def merge_left_def Let_def usage_totals_cells)

lemma decision_has_row:
  assumes "c \<in> column ` set (partition_columns (main run rows))"
  shows "\<exists>m\<in>set (merged_stats run rows). row_column m = c \<and> usage_count m > 50"
  using assms by (auto simp: main_partition_columns partition_loop_eq)

subsection \<open>The usage frame as a function of the occurrences\<close>

lemma usage_totals_eq:
  "usage_totals rows =
     map (\<lambda>k. \<lparr>row_column = k,
                row_select = occurrences cols_select rows k,
                row_where = occurrences cols_where rows k,
                row_join = occurrences cols_join rows k,
                row_group_by = occurrences cols_group_by rows k,
                row_order_by = occurrences cols_order_by rows k\<rparr>)
         (map row_column (usage_totals rows))"
  by (rule nth_equalityI) (simp_all add: usage_totals_cells)

lemma mentioned_occurrences: "mentioned role rows = {c. 0 < occurrences role rows c}"
  by (auto simp: occurrences_pos_iff)

lemma usage_totals_mset_cong:
  assumes "\<And>c. occurrences cols_select rows c = occurrences cols_select rows' c"
    and "\<And>c. occurrences cols_where rows c = occurrences cols_where rows' c"
    and "\<And>c. occurrences cols_join rows c = occurrences cols_join rows' c"
    and "\<And>c. occurrences cols_group_by rows c = occurrences cols_group_by rows' c"
    and "\<And>c. occurrences cols_order_by rows c = occurrences cols_order_by rows' c"
  shows "mset (usage_totals rows) = mset (usage_totals rows')"
proof -
  have "set (map row_column (usage_totals rows)) = set (map row_column (usage_totals rows'))"
    using assms set_usage_totals_columns [of rows] set_usage_totals_columns [of rows']
    by (simp add: mentioned_occurrences)
  then have idx: "mset (map row_column (usage_totals rows)) =
      mset (map row_column (usage_totals rows'))"
    using distinct_usage_totals [of rows] distinct_usage_totals [of rows']
    by (simp only: set_eq_iff_mset_eq_distinct)
  have "mset (usage_totals rows) =
      image_mset (\<lambda>k. \<lparr>row_column = k,
                row_select = occurrences cols_select rows k,
                row_where = occurrences cols_where rows k,
                row_join = occurrences cols_join rows k,
                row_group_by = occurrences cols_group_by rows k,
                row_order_by = occurrences cols_order_by rows k\<rparr>)
        (mset (map row_column (usage_totals rows)))"
    by (subst usage_totals_eq) (simp only: mset_map)
  also have "\<dots> =
      image_mset (\<lambda>k. \<lparr>row_column = k,
                row_select = occurrences cols_select rows' k,
                row_where = occurrences cols_where rows' k,
                row_join = occurrences cols_join rows' k,
                row_group_by = occurrences cols_group_by rows' k,
                row_order_by = occurrences cols_order_by rows' k\<rparr>)
        (mset (map row_column (usage_totals rows')))"
    by (simp only: idx assms)
  also have "\<dots> = mset (usage_totals rows')"
    by (subst (2) usage_totals_eq) (simp only: mset_map)
  finally show ?thesis .
qed

lemma occurrences_mset:
  "mset rows = mset rows' \<Longrightarrow> occurrences role rows c = occurrences role rows' c"
proof -
  assume eq: "mset rows = mset rows'"
  have "occurrences role rs c =
      sum_mset (image_mset (\<lambda>cols. int (count_list (role cols) c)) (mset rs))" for rs
    unfolding occurrences_def by (simp flip: sum_mset_sum_list)
  with eq show ?thesis by simp
qed

subsection \<open>The result of main\<close>

lemma merged_stats_usage_count:
  assumes "m \<in> set (merged_stats run rows)"
  shows "\<exists>r\<in>set (usage_totals rows). row_column r = row_column m \<and> usage_count r = usage_count m"
  using assms by (auto simp: merged_stats_def merge_left_def Let_def usage_count_def)

lemma generate_partition_spec_Nil: "generate_partition_spec [] = []"
  by (simp add: generate_partition_spec_def)

lemma main_events:
  "events (main run rows) =
     snd (fetch_cardinality run Map.empty [] (map row_column (usage_totals rows))) @
     [Print (''Recommended Partition Spec: '' @ partition_spec (main run rows))] @
     (if partition_spec (main run rows) \<noteq> []
      then alter_table_partitioning run TABLE_NAME (partition_spec (main run rows)) @
           optimize_table run TABLE_NAME
      else [Print ''No suitable partition columns identified.''])"
  by (simp add: main_def Let_def split: prod.splits)

subsection \<open>Runs in which every call of subprocess.run returns\<close>

lemma get_column_cardinality_run_completes:
  "get_column_cardinality_run (completes run) table c =
     Returned (get_column_cardinality run table c)"
  by (simp add: get_column_cardinality_run_def get_column_cardinality_def completes_def Let_def
        split: option.splits)

lemma fetch_cardinality_run_completes:
  "fetch_cardinality_run (completes run) cardinality out cs =
     Returned (fetch_cardinality run cardinality out cs)"
  by (induction cs arbitrary: cardinality out)
     (simp_all add: get_column_cardinality_run_completes split: prod.splits)

lemma alter_table_partitioning_run_completes:
  "alter_table_partitioning_run (completes run) table spec =
     Returned (alter_table_partitioning run table spec)"
  by (simp add: alter_table_partitioning_run_def alter_table_partitioning_def completes_def
        Let_def)

lemma optimize_table_run_completes:
  "optimize_table_run (completes run) table = Returned (optimize_table run table)"
  by (simp add: optimize_table_run_def optimize_table_def completes_def Let_def)

lemma main_run_completes: "main_run (completes run) rows = Returned (main run rows)"
  by (simp add: main_run_def main_def Let_def fetch_cardinality_run_completes
        alter_table_partitioning_run_completes optimize_table_run_completes
        split: prod.splits)

subsection \<open>Rendering and parsing the specification string\<close>

lemma spec_loop_eq:
  "list_all is_decision pcs \<Longrightarrow> spec_loop spec pcs = spec @ map decision_token pcs"
  by (induction pcs arbitrary: spec) (auto simp: is_decision_def decision_token_def)

lemma generate_partition_spec_eq:
  "list_all is_decision pcs \<Longrightarrow>
     generate_partition_spec pcs = str_join '','' (map decision_token pcs)"
  by (simp add: generate_partition_spec_def spec_loop_eq)

lemma split_plain:
  "list_all plain_char p \<Longrightarrow>
     split_top_level d tok (p @ rest) = split_top_level d (tok @ p) rest"
  by (induction p arbitrary: tok) (auto simp: plain_char_def)

lemma split_hash:
  assumes "list_all plain_char c"
  shows "split_top_level 0 tok ((''HASH('' @ c @ '', 16)'') @ rest) =
         split_top_level 0 (tok @ ''HASH('' @ c @ '', 16)'') rest"
proof -
  have "split_top_level 0 tok ((''HASH('' @ c @ '', 16)'') @ rest) =
        split_top_level (Suc 0) (tok @ ''HASH('') (c @ ('', 16)'' @ rest))"
    by simp
  also have "\<dots> = split_top_level (Suc 0) ((tok @ ''HASH('') @ c) ('', 16)'' @ rest)"
    using assms by (rule split_plain)
  also have "\<dots> = split_top_level 0 (tok @ ''HASH('' @ c @ '', 16)'') rest"
    by simp
  finally show ?thesis .
qed

lemma split_token:
  assumes "is_decision pc" and "plain_column (column pc)"
  shows "split_top_level 0 tok (decision_token pc @ rest) =
         split_top_level 0 (tok @ decision_token pc) rest"
  using assms
  by (auto simp: decision_token_def plain_column_def split_hash split_plain
           simp del: append_assoc append.simps)

lemma split_join:
  assumes "pcs \<noteq> []" and "list_all is_decision pcs"
    and "list_all (\<lambda>pc. plain_column (column pc)) pcs"
  shows "split_top_level 0 [] (str_join '','' (map decision_token pcs)) =
         map decision_token pcs"
  using assms
proof (induction pcs rule: induct_list012)
  case 1
  then show ?case by simp
next
  case (2 pc)
  with split_token [of pc "[]" "[]"] show ?case by simp
next
  case (3 pc pc' pcs)
  then have "split_top_level 0 [] (str_join '','' (map decision_token (pc' # pcs))) =
      map decision_token (pc' # pcs)"
    by simp
  moreover have "split_top_level 0 []
        (decision_token pc @ CHR '','' # str_join '','' (map decision_token (pc' # pcs))) =
      split_top_level 0 (decision_token pc)
        (CHR '','' # str_join '','' (map decision_token (pc' # pcs)))"
    using split_token [of pc "[]"] 3 by simp
  ultimately show ?case by simp
qed

lemma take_5_HASH: "take 5 c = ''HASH('' \<Longrightarrow> CHR ''('' \<in> set c"
proof -
  assume "take 5 c = ''HASH(''"
  then have "CHR ''('' \<in> set (take 5 c)" by simp
  then show ?thesis by (rule in_set_takeD)
qed

lemma parse_token_token:
  assumes "is_decision pc" and "plain_column (column pc)"
  shows "parse_token (decision_token pc) = pc"
proof (cases "strategy pc = ''hash''")
  case True
  then show ?thesis
    by (simp add: parse_token_def decision_token_def)
next
  case False
  with assms(1) have range: "strategy pc = ''range''"
    by (simp add: is_decision_def)
  from assms(2) have "CHR ''('' \<notin> set (column pc)"
    by (auto simp: plain_column_def plain_char_def list_all_iff)
  with take_5_HASH have "take 5 (column pc) \<noteq> ''HASH(''"
    by blast
  with False range show ?thesis
    by (simp add: parse_token_def decision_token_def)
qed

lemma decision_token_nonempty:
  "plain_column (column pc) \<Longrightarrow> decision_token pc \<noteq> []"
  by (simp add: decision_token_def plain_column_def)

lemma str_join_nonempty: "ts \<noteq> [] \<Longrightarrow> hd ts \<noteq> [] \<Longrightarrow> str_join sep ts \<noteq> []"
  by (induction sep ts rule: str_join.induct) auto

lemma round_trip:
  assumes "list_all is_decision pcs" and "list_all (\<lambda>pc. plain_column (column pc)) pcs"
  shows "parse_partition_spec (generate_partition_spec pcs) = pcs"
proof (cases pcs)
  case Nil
  then show ?thesis
    by (simp add: parse_partition_spec_def generate_partition_spec_def)
next
  case (Cons pc pcs')
  with assms have "str_join '','' (map decision_token pcs) \<noteq> []"
    by (intro str_join_nonempty) (simp_all add: decision_token_nonempty)
  moreover have "split_top_level 0 [] (str_join '','' (map decision_token pcs)) =
      map decision_token pcs"
    using Cons assms by (intro split_join) simp_all
  moreover have "map parse_token (map decision_token pcs) = pcs"
    using assms by (induction pcs) (simp_all add: parse_token_token)
  ultimately show ?thesis
    using assms(1) by (simp add: parse_partition_spec_def generate_partition_spec_eq)
qed

lemma generate_partition_spec_Cons:
  assumes "is_decision pc" and "pcs \<noteq> []" and "list_all is_decision pcs"
  shows "generate_partition_spec (pc # pcs) =
         generate_partition_spec [pc] @ '','' @ generate_partition_spec pcs"
proof -
  from assms(2) obtain pc' pcs' where "pcs = pc' # pcs'"
    by (cases pcs) auto
  with assms show ?thesis
    by (simp add: generate_partition_spec_eq)
qed

section \<open>The claims\<close>

subsection \<open>Evaluation of the example inputs\<close>

lemma column_mem_iff:
  "c \<in> column ` set pcs \<longleftrightarrow> filter (\<lambda>pc. column pc = c) pcs \<noteq> []"
  by (auto simp: filter_empty_conv)

lemma boundary_totals:
  "usage_totals boundary_rows =
     [\<lparr>row_column = ''a'', row_select = 0, row_where = 50, row_join = 0, row_group_by = 0,
       row_order_by = 0\<rparr>,
      \<lparr>row_column = ''b'', row_select = 0, row_where = 51, row_join = 0, row_group_by = 0,
       row_order_by = 0\<rparr>]"
  by code_simp

lemma boundary_merged_ok:
  "k \<noteq> 0 \<Longrightarrow> merged_stats (trino_ok k) boundary_rows =
     [\<lparr>row_column = ''a'', row_select = 0, row_where = 50, row_join = 0, row_group_by = 0,
       row_order_by = 0, row_cardinality = Some k\<rparr>,
      \<lparr>row_column = ''b'', row_select = 0, row_where = 51, row_join = 0, row_group_by = 0,
       row_order_by = 0, row_cardinality = Some k\<rparr>]"
  by (simp add: merged_stats_def boundary_totals merge_left_def get_column_cardinality_def
        trino_ok_def)

lemma boundary_merged_zero:
  "merged_stats (trino_ok 0) boundary_rows =
     [\<lparr>row_column = ''a'', row_select = 0, row_where = 50, row_join = 0, row_group_by = 0,
       row_order_by = 0, row_cardinality = None\<rparr>,
      \<lparr>row_column = ''b'', row_select = 0, row_where = 51, row_join = 0, row_group_by = 0,
       row_order_by = 0, row_cardinality = None\<rparr>]"
  by (simp add: merged_stats_def boundary_totals merge_left_def get_column_cardinality_def
        trino_ok_def)

lemma boundary_merged_unknown:
  "merged_stats trino_failed boundary_rows =
     [\<lparr>row_column = ''a'', row_select = 0, row_where = 50, row_join = 0, row_group_by = 0,
       row_order_by = 0, row_cardinality = None\<rparr>,
      \<lparr>row_column = ''b'', row_select = 0, row_where = 51, row_join = 0, row_group_by = 0,
       row_order_by = 0, row_cardinality = None\<rparr>]"
  "merged_stats trino_not_numeric boundary_rows =
     [\<lparr>row_column = ''a'', row_select = 0, row_where = 50, row_join = 0, row_group_by = 0,
       row_order_by = 0, row_cardinality = None\<rparr>,
      \<lparr>row_column = ''b'', row_select = 0, row_where = 51, row_join = 0, row_group_by = 0,
       row_order_by = 0, row_cardinality = None\<rparr>]"
  by (simp_all add: merged_stats_def boundary_totals merge_left_def get_column_cardinality_def
        trino_failed_def trino_not_numeric_def)

lemma hash_not_range: "''hash'' \<noteq> ''range''"
  by simp

lemma only_decision:
  assumes "filter (\<lambda>pc. column pc = c) pcs = [\<lparr>column = c, strategy = s\<rparr>]" and "s' \<noteq> s"
  shows "\<lparr>column = c, strategy = s'\<rparr> \<notin> set pcs"
proof
  assume "\<lparr>column = c, strategy = s'\<rparr> \<in> set pcs"
  then have "\<lparr>column = c, strategy = s'\<rparr> \<in> set (filter (\<lambda>pc. column pc = c) pcs)"
    by simp
  with assms show False by simp
qed

lemma agg_totals:
  "usage_totals agg_rows =
     [\<lparr>row_column = ''x'', row_select = 1, row_where = 3, row_join = 0, row_group_by = 0,
       row_order_by = 1\<rparr>,
      \<lparr>row_column = ''y'', row_select = 0, row_where = 1, row_join = 1, row_group_by = 0,
       row_order_by = 0\<rparr>]"
  by code_simp

lemma quiet_totals:
  "usage_totals quiet_rows =
     [\<lparr>row_column = ''a'', row_select = 0, row_where = 50, row_join = 0, row_group_by = 0,
       row_order_by = 0\<rparr>]"
  by code_simp

subsection \<open>Classification\<close>

text \<open>
  Claim C1 (unknown cardinality defaults to range), as amended. Take any row of the
  merged frame whose filter usage is above 50 and whose cardinality query completes
  with a non-zero return code or prints something that is not a number. Then
  \<open>get_column_cardinality\<close> returns, with \<open>None\<close>; the merged cardinality is the missing
  value (not the number 0, which would take the low-cardinality branch); the default
  branch runs; a run in which every call of \<^verbatim>\<open>subprocess.run\<close> returns does return
  its result; and its decision list holds exactly one decision for the column, with
  strategy range, and no hash decision for it.
\<close>

theorem unknown_cardinality_range:
  assumes "m \<in> set (merged_stats run rows)" and "usage_count m > 50"
    and "returncode (run (cardinality_query TABLE_NAME (row_column m))) \<noteq> 0 \<or>
         stdout_int (run (cardinality_query TABLE_NAME (row_column m))) = None"
  shows "get_column_cardinality_run (completes run) TABLE_NAME (row_column m) =
           Returned (get_column_cardinality run TABLE_NAME (row_column m)) \<and>
         snd (get_column_cardinality run TABLE_NAME (row_column m)) = None \<and>
         row_cardinality m = None \<and>
         cardinality_branch (row_cardinality m) = Default_Range_Branch \<and>
         main_run (completes run) rows = Returned (main run rows) \<and>
         filter (\<lambda>pc. column pc = row_column m) (partition_columns (main run rows)) =
           [\<lparr>column = row_column m, strategy = ''range''\<rparr>] \<and>
         \<lparr>column = row_column m, strategy = ''hash''\<rparr> \<notin> set (partition_columns (main run rows))"
proof -
  have unknown: "snd (get_column_cardinality run TABLE_NAME (row_column m)) = None"
    using assms(3) by (auto simp: get_column_cardinality_cases)
  then have nan: "row_cardinality m = None"
    using merged_stats_cardinality [OF assms(1)] by simp
  then have br: "cardinality_branch (row_cardinality m) = Default_Range_Branch"
    by (simp add: cardinality_branch_def)
  have dec: "filter (\<lambda>pc. column pc = row_column m) (partition_columns (main run rows)) =
      [\<lparr>column = row_column m, strategy = ''range''\<rparr>]"
    using main_decisions_of_column [OF assms(1)] assms(2) br by simp
  from only_decision [OF dec] have "\<lparr>column = row_column m, strategy = ''hash''\<rparr> \<notin>
      set (partition_columns (main run rows))"
    by simp
  with unknown nan br dec show ?thesis
    by (simp add: get_column_cardinality_run_completes main_run_completes)
qed

theorem unknown_cardinality_range_witness:
  "main_run (completes trino_failed) boundary_rows = Returned (main trino_failed boundary_rows) \<and>
   filter (\<lambda>pc. column pc = ''b'') (partition_columns (main trino_failed boundary_rows)) =
     [\<lparr>column = ''b'', strategy = ''range''\<rparr>] \<and>
   main_run (completes trino_not_numeric) boundary_rows =
     Returned (main trino_not_numeric boundary_rows) \<and>
   filter (\<lambda>pc. column pc = ''b'') (partition_columns (main trino_not_numeric boundary_rows)) =
     [\<lparr>column = ''b'', strategy = ''range''\<rparr>]"
proof -
  let ?m = "\<lparr>row_column = ''b'', row_select = 0, row_where = 51, row_join = 0,
             row_group_by = 0, row_order_by = 0, row_cardinality = None\<rparr>"
  have usage: "usage_count ?m > 50"
    by (simp add: usage_count_def)
  have row1: "?m \<in> set (merged_stats trino_failed boundary_rows)"
    and row2: "?m \<in> set (merged_stats trino_not_numeric boundary_rows)"
    by (simp_all add: boundary_merged_unknown)
  have failed: "returncode (trino_failed (cardinality_query TABLE_NAME (row_column ?m))) \<noteq> 0 \<or>
      stdout_int (trino_failed (cardinality_query TABLE_NAME (row_column ?m))) = None"
    by (simp add: trino_failed_def)
  have not_numeric:
    "returncode (trino_not_numeric (cardinality_query TABLE_NAME (row_column ?m))) \<noteq> 0 \<or>
     stdout_int (trino_not_numeric (cardinality_query TABLE_NAME (row_column ?m))) = None"
    by (simp add: trino_not_numeric_def)
  from unknown_cardinality_range [OF row1 usage failed]
    unknown_cardinality_range [OF row2 usage not_numeric]
  show ?thesis by simp
qed

text \<open>
  Claim C1 as stated fails where the resolver fails without completing. Column \<open>b\<close>
  has filter usage 51. When the \<^verbatim>\<open>trino\<close> executable cannot be started for its
  cardinality query, \<open>get_column_cardinality\<close> raises and the run is aborted by
  \<open>FileNotFoundError\<close>: no decision list is produced. When that query hangs, the run
  never returns.
\<close>

theorem unknown_cardinality_abort_counterexample:
  "\<lparr>row_column = ''b'', row_select = 0, row_where = 51, row_join = 0, row_group_by = 0,
     row_order_by = 0\<rparr> \<in> set (usage_totals boundary_rows) \<and>
   usage_count \<lparr>row_column = ''b'', row_select = 0, row_where = 51, row_join = 0,
     row_group_by = 0, row_order_by = 0\<rparr> = 51 \<and>
   trino_not_found_for ''b'' (cardinality_query TABLE_NAME ''b'') = Raised FileNotFoundError \<and>
   get_column_cardinality_run (trino_not_found_for ''b'') TABLE_NAME ''b'' =
     Raised FileNotFoundError \<and>
   main_run (trino_not_found_for ''b'') boundary_rows = Raised FileNotFoundError \<and>
   trino_hangs_for ''b'' (cardinality_query TABLE_NAME ''b'') = Never_Returns \<and>
   get_column_cardinality_run (trino_hangs_for ''b'') TABLE_NAME ''b'' = Never_Returns \<and>
   main_run (trino_hangs_for ''b'') boundary_rows = Never_Returns"
  by (simp add: boundary_totals usage_count_def main_run_def get_column_cardinality_run_def
        trino_not_found_for_def trino_hangs_for_def cardinality_query_def)

text \<open>
  Claim C2 (threshold boundary). For every row of the merged frame, that is for every
  column: when its filter usage (where + join + group_by + order_by) is exactly 50, no
  decision names the column; when it is 51, a decision names it; and in general a
  decision names the column exactly when the filter usage is strictly greater than 50.
\<close>

theorem threshold_boundary:
  assumes "m \<in> set (merged_stats run rows)"
  shows "(usage_count m = 50 \<longrightarrow>
            row_column m \<notin> column ` set (partition_columns (main run rows))) \<and>
         (usage_count m = 50 + 1 \<longrightarrow>
            row_column m \<in> column ` set (partition_columns (main run rows))) \<and>
         (row_column m \<in> column ` set (partition_columns (main run rows)) \<longleftrightarrow>
            usage_count m > 50)"
  using main_decisions_of_column [OF assms]
  by (simp add: column_mem_iff)

theorem threshold_boundary_witness:
  "''a'' \<notin> column ` set (partition_columns (main (trino_ok 5) boundary_rows)) \<and>
   ''b'' \<in> column ` set (partition_columns (main (trino_ok 5) boundary_rows))"
  using threshold_boundary [of "\<lparr>row_column = ''a'', row_select = 0, row_where = 50,
          row_join = 0, row_group_by = 0, row_order_by = 0, row_cardinality = Some 5\<rparr>"
          "trino_ok 5" boundary_rows]
        threshold_boundary [of "\<lparr>row_column = ''b'', row_select = 0, row_where = 51,
          row_join = 0, row_group_by = 0, row_order_by = 0, row_cardinality = Some 5\<rparr>"
          "trino_ok 5" boundary_rows]
  by (simp add: boundary_merged_ok usage_count_def)

text \<open>
  Claim C3 (cardinality boundary). Take any row of the merged frame whose filter usage
  is above 50 and whose cardinality query returned the number \<open>n\<close>. When \<open>n\<close> is
  exactly 100000, hash is not selected: the default branch runs and the column's one
  decision is range. When \<open>n\<close> is exactly 1000, the low-cardinality branch is not taken:
  the default branch runs and the column's one decision is range. When \<open>n\<close> is
  strictly above 100000, the hash branch runs and the column's one decision is hash.
\<close>

theorem cardinality_boundary:
  assumes "m \<in> set (merged_stats run rows)" and "usage_count m > 50"
    and "snd (get_column_cardinality run TABLE_NAME (row_column m)) = Some n"
  shows "(n = 100000 \<longrightarrow>
            row_cardinality m = Some n \<and>
            cardinality_branch (row_cardinality m) = Default_Range_Branch \<and>
            filter (\<lambda>pc. column pc = row_column m) (partition_columns (main run rows)) =
              [\<lparr>column = row_column m, strategy = ''range''\<rparr>]) \<and>
         (n = 1000 \<longrightarrow>
            row_cardinality m = Some n \<and>
            cardinality_branch (row_cardinality m) = Default_Range_Branch \<and>
            filter (\<lambda>pc. column pc = row_column m) (partition_columns (main run rows)) =
              [\<lparr>column = row_column m, strategy = ''range''\<rparr>]) \<and>
         (n > 100000 \<longrightarrow>
            row_cardinality m = Some n \<and>
            cardinality_branch (row_cardinality m) = Hash_Branch \<and>
            filter (\<lambda>pc. column pc = row_column m) (partition_columns (main run rows)) =
              [\<lparr>column = row_column m, strategy = ''hash''\<rparr>])"
  using main_decisions_of_column [OF assms(1)] merged_stats_cardinality [OF assms(1)] assms(2,3)
  by (simp add: cardinality_branch_def HIGH_CARDINALITY_THRESHOLD_def
        LOW_CARDINALITY_THRESHOLD_def)

theorem cardinality_boundary_witness:
  "filter (\<lambda>pc. column pc = ''b'') (partition_columns (main (trino_ok 100000) boundary_rows)) =
     [\<lparr>column = ''b'', strategy = ''range''\<rparr>] \<and>
   filter (\<lambda>pc. column pc = ''b'') (partition_columns (main (trino_ok 1000) boundary_rows)) =
     [\<lparr>column = ''b'', strategy = ''range''\<rparr>] \<and>
   filter (\<lambda>pc. column pc = ''b'') (partition_columns (main (trino_ok 100001) boundary_rows)) =
     [\<lparr>column = ''b'', strategy = ''hash''\<rparr>]"
proof -
  let ?m = "\<lambda>k. \<lparr>row_column = ''b'', row_select = 0, row_where = 51, row_join = 0,
             row_group_by = 0, row_order_by = 0, row_cardinality = Some k\<rparr>"
  have usage: "usage_count (?m k) > 50" for k
    by (simp add: usage_count_def)
  have row: "k \<noteq> 0 \<Longrightarrow> ?m k \<in> set (merged_stats (trino_ok k) boundary_rows)" for k
    by (simp add: boundary_merged_ok)
  have known: "snd (get_column_cardinality (trino_ok k) TABLE_NAME (row_column (?m k))) = Some k"
    for k
    by (simp add: get_column_cardinality_def trino_ok_def)
  from cardinality_boundary [OF row usage known, of 100000]
    cardinality_boundary [OF row usage known, of 1000]
    cardinality_boundary [OF row usage known, of 100001]
  show ?thesis by simp
qed

text \<open>
  Claim C10 (a measured cardinality of zero). Take any row of the merged frame whose
  cardinality query returned the number 0. The truthiness test of line 116 discards
  it: the merged cardinality is the missing value, so the default branch runs and not
  the low-cardinality branch that the number 0 itself would select. When the filter
  usage is above 50 the column's one decision is range, and no hash decision names it.
\<close>

theorem zero_cardinality_discarded:
  assumes "m \<in> set (merged_stats run rows)"
    and "snd (get_column_cardinality run TABLE_NAME (row_column m)) = Some 0"
  shows "row_cardinality m = None \<and>
         cardinality_branch (row_cardinality m) = Default_Range_Branch \<and>
         cardinality_branch (Some 0) = Low_Range_Branch \<and>
         (usage_count m > 50 \<longrightarrow>
            filter (\<lambda>pc. column pc = row_column m) (partition_columns (main run rows)) =
              [\<lparr>column = row_column m, strategy = ''range''\<rparr>] \<and>
            \<lparr>column = row_column m, strategy = ''hash''\<rparr> \<notin>
              set (partition_columns (main run rows)))"
proof -
  have nan: "row_cardinality m = None"
    using merged_stats_cardinality [OF assms(1)] assms(2) by simp
  then have br: "cardinality_branch (row_cardinality m) = Default_Range_Branch"
    by (simp add: cardinality_branch_def)
  have low: "cardinality_branch (Some 0) = Low_Range_Branch"
    by (simp add: cardinality_branch_def HIGH_CARDINALITY_THRESHOLD_def
          LOW_CARDINALITY_THRESHOLD_def)
  have "filter (\<lambda>pc. column pc = row_column m) (partition_columns (main run rows)) =
          [\<lparr>column = row_column m, strategy = ''range''\<rparr>] \<and>
        \<lparr>column = row_column m, strategy = ''hash''\<rparr> \<notin> set (partition_columns (main run rows))"
    if "usage_count m > 50"
  proof -
    have dec: "filter (\<lambda>pc. column pc = row_column m) (partition_columns (main run rows)) =
        [\<lparr>column = row_column m, strategy = ''range''\<rparr>]"
      using main_decisions_of_column [OF assms(1)] that br by simp
    from only_decision [OF dec] show ?thesis using dec by simp
  qed
  with nan br low show ?thesis by simp
qed

theorem zero_cardinality_discarded_witness:
  "filter (\<lambda>pc. column pc = ''b'') (partition_columns (main (trino_ok 0) boundary_rows)) =
     [\<lparr>column = ''b'', strategy = ''range''\<rparr>]"
proof -
  let ?m = "\<lparr>row_column = ''b'', row_select = 0, row_where = 51, row_join = 0,
             row_group_by = 0, row_order_by = 0, row_cardinality = None\<rparr>"
  have row: "?m \<in> set (merged_stats (trino_ok 0) boundary_rows)"
    by (simp add: boundary_merged_zero)
  have zero: "snd (get_column_cardinality (trino_ok 0) TABLE_NAME (row_column ?m)) = Some 0"
    by (simp add: get_column_cardinality_def trino_ok_def)
  from zero_cardinality_discarded [OF row zero] show ?thesis
    by (simp add: usage_count_def)
qed

subsection \<open>Aggregation\<close>

text \<open>
  Claim C4 (select-only usage never promotes a column). A column that occurs in no
  where, join, group_by or order_by list of any record is named by no decision,
  whatever its number of occurrences in select lists and whatever the environment
  answers for its cardinality.
\<close>

theorem select_only_never_promoted:
  assumes "c \<notin> mentioned cols_where rows \<union> mentioned cols_join rows \<union>
               mentioned cols_group_by rows \<union> mentioned cols_order_by rows"
  shows "c \<notin> column ` set (partition_columns (main run rows))"
proof
  assume "c \<in> column ` set (partition_columns (main run rows))"
  then obtain m where m: "m \<in> set (merged_stats run rows)" "row_column m = c"
    and usage: "usage_count m > 50"
    using decision_has_row by blast
  from assms have "occurrences cols_where rows c = 0" "occurrences cols_join rows c = 0"
    "occurrences cols_group_by rows c = 0" "occurrences cols_order_by rows c = 0"
    by (simp_all add: occurrences_zero_iff)
  with m have "usage_count m = 0"
    by (simp add: usage_count_def merged_stats_cells)
  with usage show False by simp
qed

theorem select_only_never_promoted_witness:
  "occurrences cols_select select_rows ''s'' = 60 \<and>
   ''s'' \<notin> column ` set (partition_columns (main (trino_ok 500000) select_rows))"
proof -
  have "''s'' \<notin> mentioned cols_where select_rows \<union> mentioned cols_join select_rows \<union>
               mentioned cols_group_by select_rows \<union> mentioned cols_order_by select_rows"
    by (simp add: mentioned_def select_rows_def only_select_def only_where_def)
  from select_only_never_promoted [OF this, of "trino_ok 500000"]
  show ?thesis
    by (simp add: occurrences_def select_rows_def only_select_def only_where_def
          sum_list_replicate)
qed

text \<open>
  Claim C5 (aggregation preserves counts). For every sequence of records: each row of
  the usage frame carries, for each of the five roles, the total number of occurrences
  of its column in that role across all records; the frame has one row for each column
  that occurs in some role of some record, and no other row; and each counter, read at
  any column \<open>c\<close>, gives the number of occurrences of \<open>c\<close> in its role, with keys
  exactly the columns that occur in that role.
\<close>

theorem aggregation_count_preserving:
  "(\<forall>r\<in>set (usage_totals rows).
      row_select r = occurrences cols_select rows (row_column r) \<and>
      row_where r = occurrences cols_where rows (row_column r) \<and>
      row_join r = occurrences cols_join rows (row_column r) \<and>
      row_group_by r = occurrences cols_group_by rows (row_column r) \<and>
      row_order_by r = occurrences cols_order_by rows (row_column r)) \<and>
   distinct (map row_column (usage_totals rows)) \<and>
   row_column ` set (usage_totals rows) =
     mentioned cols_select rows \<union> mentioned cols_where rows \<union> mentioned cols_join rows \<union>
     mentioned cols_group_by rows \<union> mentioned cols_order_by rows \<and>
   counter_cell (select_counter (aggregate_usage empty_counters rows)) c =
     occurrences cols_select rows c \<and>
   counter_cell (where_counter (aggregate_usage empty_counters rows)) c =
     occurrences cols_where rows c \<and>
   counter_cell (join_counter (aggregate_usage empty_counters rows)) c =
     occurrences cols_join rows c \<and>
   counter_cell (group_by_counter (aggregate_usage empty_counters rows)) c =
     occurrences cols_group_by rows c \<and>
   counter_cell (order_by_counter (aggregate_usage empty_counters rows)) c =
     occurrences cols_order_by rows c \<and>
   set (counter_keys (select_counter (aggregate_usage empty_counters rows))) =
     mentioned cols_select rows \<and>
   set (counter_keys (where_counter (aggregate_usage empty_counters rows))) =
     mentioned cols_where rows \<and>
   set (counter_keys (join_counter (aggregate_usage empty_counters rows))) =
     mentioned cols_join rows \<and>
   set (counter_keys (group_by_counter (aggregate_usage empty_counters rows))) =
     mentioned cols_group_by rows \<and>
   set (counter_keys (order_by_counter (aggregate_usage empty_counters rows))) =
     mentioned cols_order_by rows"
proof -
  have rows: "\<forall>r\<in>set (usage_totals rows).
      row_select r = occurrences cols_select rows (row_column r) \<and>
      row_where r = occurrences cols_where rows (row_column r) \<and>
      row_join r = occurrences cols_join rows (row_column r) \<and>
      row_group_by r = occurrences cols_group_by rows (row_column r) \<and>
      row_order_by r = occurrences cols_order_by rows (row_column r)"
    by (simp add: usage_totals_cells)
  have cells: "counter_cell (select_counter (aggregate_usage empty_counters rows)) c =
      occurrences cols_select rows c"
    "counter_cell (where_counter (aggregate_usage empty_counters rows)) c =
      occurrences cols_where rows c"
    "counter_cell (join_counter (aggregate_usage empty_counters rows)) c =
      occurrences cols_join rows c"
    "counter_cell (group_by_counter (aggregate_usage empty_counters rows)) c =
      occurrences cols_group_by rows c"
    "counter_cell (order_by_counter (aggregate_usage empty_counters rows)) c =
      occurrences cols_order_by rows c"
    by (simp_all add: aggregate_cells empty_counters_def counter_cell_empty)
  have keys: "set (counter_keys (select_counter (aggregate_usage empty_counters rows))) =
      mentioned cols_select rows"
    "set (counter_keys (where_counter (aggregate_usage empty_counters rows))) =
      mentioned cols_where rows"
    "set (counter_keys (join_counter (aggregate_usage empty_counters rows))) =
      mentioned cols_join rows"
    "set (counter_keys (group_by_counter (aggregate_usage empty_counters rows))) =
      mentioned cols_group_by rows"
    "set (counter_keys (order_by_counter (aggregate_usage empty_counters rows))) =
      mentioned cols_order_by rows"
    by (simp_all add: aggregate_keys empty_counters_def counter_keys_empty)
  from rows distinct_usage_totals [of rows] set_usage_totals_columns [of rows] cells keys
  show ?thesis by blast
qed

theorem aggregation_count_preserving_witness:
  "occurrences cols_where agg_rows ''x'' = 3 \<and>
   counter_cell (where_counter (aggregate_usage empty_counters agg_rows)) ''x'' = 3 \<and>
   ''z'' \<notin> row_column ` set (usage_totals agg_rows)"
proof -
  have occ: "occurrences cols_where agg_rows ''x'' = 3"
    by (simp add: occurrences_def agg_rows_def)
  have "counter_cell (where_counter (aggregate_usage empty_counters agg_rows)) ''x'' =
      occurrences cols_where agg_rows ''x''"
    using aggregation_count_preserving [of agg_rows "''x''"] by (elim conjE)
  with occ show ?thesis
    by (simp add: agg_totals)
qed

text \<open>
  Claim C6 (aggregation is independent of record order). When two record sequences are
  permutations of one another, the usage frames hold the same rows, each once: the
  same column with the same five counts. More generally this holds whenever the two
  sequences give every column the same number of occurrences in every role. Only the
  order of the rows, which follows the first occurrence of each column, may differ.
\<close>

theorem aggregation_order_independent:
  "(mset rows = mset rows' \<longrightarrow> mset (usage_totals rows) = mset (usage_totals rows')) \<and>
   ((\<forall>c. occurrences cols_select rows c = occurrences cols_select rows' c \<and>
         occurrences cols_where rows c = occurrences cols_where rows' c \<and>
         occurrences cols_join rows c = occurrences cols_join rows' c \<and>
         occurrences cols_group_by rows c = occurrences cols_group_by rows' c \<and>
         occurrences cols_order_by rows c = occurrences cols_order_by rows' c) \<longrightarrow>
    mset (usage_totals rows) = mset (usage_totals rows'))"
proof (intro conjI impI)
  assume "mset rows = mset rows'"
  then have occ: "occurrences role rows c = occurrences role rows' c" for role c
    by (rule occurrences_mset)
  show "mset (usage_totals rows) = mset (usage_totals rows')"
    by (rule usage_totals_mset_cong; rule occ)
next
  assume eq: "\<forall>c. occurrences cols_select rows c = occurrences cols_select rows' c \<and>
         occurrences cols_where rows c = occurrences cols_where rows' c \<and>
         occurrences cols_join rows c = occurrences cols_join rows' c \<and>
         occurrences cols_group_by rows c = occurrences cols_group_by rows' c \<and>
         occurrences cols_order_by rows c = occurrences cols_order_by rows' c"
  show "mset (usage_totals rows) = mset (usage_totals rows')"
    by (rule usage_totals_mset_cong; simp add: eq)
qed

theorem aggregation_order_independent_witness:
  "mset (usage_totals [only_where [''x''], only_where [''y'']]) =
   mset (usage_totals [only_where [''y''], only_where [''x'']]) \<and>
   usage_totals [only_where [''x''], only_where [''y'']] \<noteq>
   usage_totals [only_where [''y''], only_where [''x'']]"
proof -
  have perm: "mset [only_where [''x''], only_where [''y'']] =
      mset [only_where [''y''], only_where [''x'']]"
    by (simp add: add_mset_commute)
  have "map row_column (usage_totals [only_where [''x''], only_where [''y'']]) = [''x'', ''y'']"
    "map row_column (usage_totals [only_where [''y''], only_where [''x'']]) = [''y'', ''x'']"
    by code_simp+
  then have "usage_totals [only_where [''x''], only_where [''y'']] \<noteq>
      usage_totals [only_where [''y''], only_where [''x'']]"
    by auto
  with aggregation_order_independent [of "[only_where [''x''], only_where [''y'']]"
      "[only_where [''y''], only_where [''x'']]"] perm
  show ?thesis by simp
qed

subsection \<open>The whole run\<close>

text \<open>
  Claim C8 (no candidate). When no row of the usage frame has a filter usage above 50,
  the decision list is empty and the specification string is empty; after the
  cardinality queries the run prints the empty recommendation and then the line
  \<open>No suitable partition columns identified.\<close>, and runs neither the ALTER TABLE nor
  the optimize query. A second run on the same records, in whatever environment
  \<open>run'\<close>, gives the same empty decision list and the same empty string.
\<close>

theorem empty_candidates:
  assumes "\<forall>r\<in>set (usage_totals rows). usage_count r \<le> 50"
  shows "partition_columns (main run rows) = [] \<and>
         partition_spec (main run rows) = [] \<and>
         events (main run rows) =
           snd (fetch_cardinality run Map.empty [] (map row_column (usage_totals rows))) @
           [Print ''Recommended Partition Spec: '',
            Print ''No suitable partition columns identified.''] \<and>
         partition_columns (main run' rows) = partition_columns (main run rows) \<and>
         partition_spec (main run' rows) = partition_spec (main run rows)"
proof -
  have none: "partition_columns (main env rows) = []" for env
  proof -
    have "\<not> usage_count m > 50" if "m \<in> set (merged_stats env rows)" for m
      using merged_stats_usage_count [OF that] assms by fastforce
    then show ?thesis
      by (simp add: main_partition_columns partition_loop_eq filter_empty_conv)
  qed
  then have spec: "partition_spec (main env rows) = []" for env
    by (simp add: main_partition_spec generate_partition_spec_Nil)
  from none spec show ?thesis
    by (simp add: main_events)
qed

theorem empty_candidates_witness:
  "partition_columns (main (trino_ok 500000) quiet_rows) = [] \<and>
   partition_spec (main (trino_ok 500000) quiet_rows) = [] \<and>
   events (main (trino_ok 500000) quiet_rows) =
     [Trino (cardinality_query TABLE_NAME ''a''), Print ''Recommended Partition Spec: '',
      Print ''No suitable partition columns identified.'']"
proof -
  have "\<forall>r\<in>set (usage_totals quiet_rows). usage_count r \<le> 50"
    by (simp add: quiet_totals usage_count_def)
  from empty_candidates [OF this, of "trino_ok 500000"] show ?thesis
    by (simp add: quiet_totals get_column_cardinality_def trino_ok_def)
qed

text \<open>
  Claim C9 (end-to-end scenario). On the scenario's records and cardinalities the
  usage totals are status: where 30, join 25 (filter usage 55) and region: where 60;
  the decisions are (status, hash) and (region, range), in this order; they render as
  \<open>HASH(status, 16)\<close> and \<open>region\<close>; and the specification string of the run is
  \<open>HASH(status, 16),region\<close>.
\<close>

theorem end_to_end_scenario:
  "usage_totals scenario_rows =
     [\<lparr>row_column = ''status'', row_select = 0, row_where = 30, row_join = 25,
       row_group_by = 0, row_order_by = 0\<rparr>,
      \<lparr>row_column = ''region'', row_select = 0, row_where = 60, row_join = 0,
       row_group_by = 0, row_order_by = 0\<rparr>] \<and>
   merged_stats scenario_trino scenario_rows =
     [\<lparr>row_column = ''status'', row_select = 0, row_where = 30, row_join = 25,
       row_group_by = 0, row_order_by = 0, row_cardinality = Some 500000\<rparr>,
      \<lparr>row_column = ''region'', row_select = 0, row_where = 60, row_join = 0,
       row_group_by = 0, row_order_by = 0, row_cardinality = Some 50\<rparr>] \<and>
   map usage_count (merged_stats scenario_trino scenario_rows) = [55, 60] \<and>
   partition_columns (main scenario_trino scenario_rows) =
     [\<lparr>column = ''status'', strategy = ''hash''\<rparr>,
      \<lparr>column = ''region'', strategy = ''range''\<rparr>] \<and>
   generate_partition_spec [\<lparr>column = ''status'', strategy = ''hash''\<rparr>] =
     ''HASH(status, 16)'' \<and>
   generate_partition_spec [\<lparr>column = ''region'', strategy = ''range''\<rparr>] = ''region'' \<and>
   partition_spec (main scenario_trino scenario_rows) = ''HASH(status, 16),region''"
proof -
  have totals: "usage_totals scenario_rows =
     [\<lparr>row_column = ''status'', row_select = 0, row_where = 30, row_join = 25,
       row_group_by = 0, row_order_by = 0\<rparr>,
      \<lparr>row_column = ''region'', row_select = 0, row_where = 60, row_join = 0,
       row_group_by = 0, row_order_by = 0\<rparr>]"
    by code_simp
  have merged: "merged_stats scenario_trino scenario_rows =
     [\<lparr>row_column = ''status'', row_select = 0, row_where = 30, row_join = 25,
       row_group_by = 0, row_order_by = 0, row_cardinality = Some 500000\<rparr>,
      \<lparr>row_column = ''region'', row_select = 0, row_where = 60, row_join = 0,
       row_group_by = 0, row_order_by = 0, row_cardinality = Some 50\<rparr>]"
    by (simp add: merged_stats_def totals merge_left_def get_column_cardinality_def
          scenario_trino_def cardinality_query_def)
  have pcs: "partition_columns (main scenario_trino scenario_rows) =
     [\<lparr>column = ''status'', strategy = ''hash''\<rparr>,
      \<lparr>column = ''region'', strategy = ''range''\<rparr>]"
    by (simp add: main_partition_columns merged usage_count_def cardinality_branch_def
          HIGH_CARDINALITY_THRESHOLD_def LOW_CARDINALITY_THRESHOLD_def)
  have spec: "partition_spec (main scenario_trino scenario_rows) = ''HASH(status, 16),region''"
    by (simp add: main_partition_spec pcs generate_partition_spec_def)
  have tokens: "generate_partition_spec [\<lparr>column = ''status'', strategy = ''hash''\<rparr>] =
      ''HASH(status, 16)''"
    "generate_partition_spec [\<lparr>column = ''region'', strategy = ''range''\<rparr>] = ''region''"
    by (simp_all add: generate_partition_spec_def)
  have usage: "map usage_count (merged_stats scenario_trino scenario_rows) = [55, 60]"
    by (simp add: merged usage_count_def)
  from totals merged usage pcs tokens spec show ?thesis by blast
qed

subsection \<open>The specification string\<close>

text \<open>
  Claim C7 (rendering and round trip). \<open>generate_partition_spec\<close> gives the empty
  string for the empty list, \<open>HASH(<column>, 16)\<close> for one hash decision and the bare
  column name for one range decision, and puts exactly one comma between the rendering
  of the first decision and the rendering of the remaining ones. The list
  [(colA, hash), (colB, range)] renders as \<open>HASH(colA, 16),colB\<close>, and splitting that
  string on its top-level commas gives the same list back; the round trip holds for
  every list of decisions over plain column names.
\<close>

theorem spec_rendering:
  "generate_partition_spec [] = [] \<and>
   generate_partition_spec [\<lparr>column = c, strategy = ''hash''\<rparr>] = ''HASH('' @ c @ '', 16)'' \<and>
   generate_partition_spec [\<lparr>column = c, strategy = ''range''\<rparr>] = c \<and>
   (is_decision pc \<and> pcs \<noteq> [] \<and> list_all is_decision pcs \<longrightarrow>
      generate_partition_spec (pc # pcs) =
      generate_partition_spec [pc] @ '','' @ generate_partition_spec pcs) \<and>
   generate_partition_spec [\<lparr>column = ''colA'', strategy = ''hash''\<rparr>,
                            \<lparr>column = ''colB'', strategy = ''range''\<rparr>] =
     ''HASH(colA, 16),colB'' \<and>
   parse_partition_spec ''HASH(colA, 16),colB'' =
     [\<lparr>column = ''colA'', strategy = ''hash''\<rparr>, \<lparr>column = ''colB'', strategy = ''range''\<rparr>] \<and>
   (list_all is_decision ds \<and> list_all (\<lambda>d. plain_column (column d)) ds \<longrightarrow>
      parse_partition_spec (generate_partition_spec ds) = ds)"
proof -
  have single: "generate_partition_spec [] = []"
    "generate_partition_spec [\<lparr>column = c, strategy = ''hash''\<rparr>] = ''HASH('' @ c @ '', 16)''"
    "generate_partition_spec [\<lparr>column = c, strategy = ''range''\<rparr>] = c"
    by (simp_all add: generate_partition_spec_def)
  have example: "generate_partition_spec [\<lparr>column = ''colA'', strategy = ''hash''\<rparr>,
                            \<lparr>column = ''colB'', strategy = ''range''\<rparr>] =
     ''HASH(colA, 16),colB''"
    by (simp add: generate_partition_spec_def)
  have parsed: "parse_partition_spec ''HASH(colA, 16),colB'' =
     [\<lparr>column = ''colA'', strategy = ''hash''\<rparr>, \<lparr>column = ''colB'', strategy = ''range''\<rparr>]"
    by (simp add: parse_partition_spec_def parse_token_def)
  from single example parsed generate_partition_spec_Cons [of pc pcs] round_trip [of ds]
  show ?thesis by blast
qed

theorem spec_rendering_witness:
  "generate_partition_spec [\<lparr>column = ''x'', strategy = ''hash''\<rparr>,
      \<lparr>column = ''y'', strategy = ''range''\<rparr>, \<lparr>column = ''z'', strategy = ''hash''\<rparr>] =
     ''HASH(x, 16),y,HASH(z, 16)'' \<and>
   parse_partition_spec (generate_partition_spec
     [\<lparr>column = ''colA'', strategy = ''hash''\<rparr>, \<lparr>column = ''colB'', strategy = ''range''\<rparr>]) =
     [\<lparr>column = ''colA'', strategy = ''hash''\<rparr>, \<lparr>column = ''colB'', strategy = ''range''\<rparr>]"
  using spec_rendering [where pc = "\<lparr>column = ''x'', strategy = ''hash''\<rparr>"
      and pcs = "[\<lparr>column = ''y'', strategy = ''range''\<rparr>, \<lparr>column = ''z'', strategy = ''hash''\<rparr>]"
      and ds = "[\<lparr>column = ''colA'', strategy = ''hash''\<rparr>,
                 \<lparr>column = ''colB'', strategy = ''range''\<rparr>]"]
  by (simp add: is_decision_def plain_column_def plain_char_def generate_partition_spec_def)

end
